theory Spec2Isabelle
  imports
    Complex_Main
    "HOL-Library.AList"
    "HOL-Library.Sublist"
    "HOL-Library.Char_ord"
    "HOL-Library.List_Lexorder"
begin

section \<open>Python values\<close>

text \<open>
  The records read by \<^verbatim>\<open>json.load\<close> are untyped nested values. A dictionary is an
  association list looked up with \<open>map_of\<close>; the order of the pairs is the insertion order
  of the Python dict. Floating-point numbers are kept abstract in the type parameter
  \<open>'f\<close>: the flatteners only pass them along and test them for truthiness. The float
  \<^verbatim>\<open>NaN\<close>, which is no number, has a constructor of its own.
\<close>

datatype 'f json =
    JNull
  | JBool bool
  | JInt int
  | JFloat 'f
  | JNaN
  | JStr string
  | JList "'f json list"
  | JObj "(string \<times> 'f json) list"

type_synonym 'f pydict = "(string \<times> 'f json) list"

text \<open>The exceptions the modelled code can raise, with the text each one carries:
  the message of a \<^verbatim>\<open>KeyError\<close>, and for an \<^verbatim>\<open>AttributeError\<close> the name of the type
  that has no attribute \<^verbatim>\<open>get\<close>.\<close>

datatype error = KeyError string | AttributeError string

text \<open>\<^verbatim>\<open>key in d\<close>, \<^verbatim>\<open>d.get(key)\<close> and \<^verbatim>\<open>d[key]\<close> on a dict.\<close>

definition py_in :: "string \<Rightarrow> 'f pydict \<Rightarrow> bool" where
  "py_in k d = (map_of d k \<noteq> None)"

definition py_get :: "'f pydict \<Rightarrow> string \<Rightarrow> 'f json" where
  "py_get d k = (case map_of d k of None \<Rightarrow> JNull | Some v \<Rightarrow> v)"

definition py_item :: "'f pydict \<Rightarrow> string \<Rightarrow> error + 'f json" where
  "py_item d k = (case map_of d k of None \<Rightarrow> Inl (KeyError k) | Some v \<Rightarrow> Inr v)"

text \<open>Truthiness, as tested by \<^verbatim>\<open>x or default\<close>.\<close>

fun truthy :: "'f::zero json \<Rightarrow> bool" where
  "truthy JNull = False"
| "truthy (JBool b) = b"
| "truthy (JInt i) = (i \<noteq> 0)"
| "truthy (JFloat x) = (x \<noteq> 0)"
| "truthy JNaN = True"
| "truthy (JStr s) = (s \<noteq> [])"
| "truthy (JList xs) = (xs \<noteq> [])"
| "truthy (JObj d) = (d \<noteq> [])"

definition py_or :: "'f::zero json \<Rightarrow> 'f json \<Rightarrow> 'f json" where
  "py_or a b = (if truthy a then a else b)"

fun type_name :: "'f json \<Rightarrow> string" where
  "type_name JNull = ''NoneType''"
| "type_name (JBool b) = ''bool''"
| "type_name (JInt i) = ''int''"
| "type_name (JFloat x) = ''float''"
| "type_name JNaN = ''float''"
| "type_name (JStr s) = ''str''"
| "type_name (JList xs) = ''list''"
| "type_name (JObj d) = ''dict''"

text \<open>The method call \<^verbatim>\<open>x.get(key)\<close> on a value that need not be a dict: only a dict
  has the method, every other value raises \<^verbatim>\<open>AttributeError\<close>.\<close>

fun attr_get :: "'f json \<Rightarrow> string \<Rightarrow> error + 'f json" where
  "attr_get (JObj d) k = Inr (py_get d k)"
| "attr_get v k = Inl (AttributeError (type_name v))"

fun isinstance_dict :: "'f json \<Rightarrow> bool" where
  "isinstance_dict (JObj d) = True"
| "isinstance_dict v = False"

section \<open>parser.py\<close>

definition required_fields :: "string list" where
  "required_fields = [''id'', ''ra'', ''dec'', ''score'']"

text \<open>The loop of \<^verbatim>\<open>validate_source\<close> over the required fields: the first field that is
  not a key of the record raises, and falling off the end returns \<^verbatim>\<open>None\<close>.\<close>

fun check_fields :: "string list \<Rightarrow> 'f pydict \<Rightarrow> error + unit" where
  "check_fields [] obj = Inr ()"
| "check_fields (field # rest) obj =
     (if \<not> py_in field obj
      then Inl (KeyError (''Missing required field: '' @ field))
      else check_fields rest obj)"

definition validate_source :: "'f pydict \<Rightarrow> error + unit" where
  "validate_source obj = check_fields required_fields obj"

definition parse_label :: "'f::zero pydict \<Rightarrow> error + 'f json" where
  "parse_label obj =
     (let tns = py_or (py_get obj ''tns_info'') (JObj []) in
      case attr_get tns ''object_type'' of
        Inl e \<Rightarrow> Inl e
      | Inr obj_type \<Rightarrow>
          if obj_type = JNull then Inr JNull
          else attr_get obj_type ''name'')"

definition parse_photometry :: "'f::zero pydict \<Rightarrow> error + 'f json list" where
  "parse_photometry obj =
     (let tns = py_or (py_get obj ''tns_info'') (JObj []) in
      case attr_get tns ''photometry'' of
        Inl e \<Rightarrow> Inl e
      | Inr p \<Rightarrow>
          (case py_or p (JList []) of
             JList photometry \<Rightarrow> Inr photometry
           | _ \<Rightarrow> Inr []))"

definition parse_spectra :: "'f::zero pydict \<Rightarrow> error + 'f json list" where
  "parse_spectra obj =
     (let tns = py_or (py_get obj ''tns_info'') (JObj []) in
      case attr_get tns ''spectra'' of
        Inl e \<Rightarrow> Inl e
      | Inr s \<Rightarrow>
          (case py_or s (JList []) of
             JList spectra \<Rightarrow> Inr spectra
           | _ \<Rightarrow> Inr []))"

section \<open>The table constructor\<close>

text \<open>
  \<^verbatim>\<open>pd.DataFrame(rows)\<close> on a list of dicts: the columns are the keys of the rows in the
  order of their first occurrence, so a list without rows gives a table without columns.
  The rows are kept as they were given; the conversion of the cells to column types is
  not modelled.
\<close>

definition pd_unique :: "'a list \<Rightarrow> 'a list" where
  "pd_unique xs = fold (\<lambda>x acc. if x \<in> set acc then acc else acc @ [x]) xs []"

record 'f dataframe =
  df_columns :: "string list"
  df_rows :: "'f pydict list"

definition pd_DataFrame :: "'f pydict list \<Rightarrow> 'f dataframe" where
  "pd_DataFrame rows =
     \<lparr>df_columns = pd_unique (concat (map (map fst) rows)), df_rows = rows\<rparr>"

section \<open>dataset.py\<close>

definition source_to_row :: "'f::zero json \<Rightarrow> error + 'f pydict option" where
  "source_to_row obj =
     (case obj of
        JObj d \<Rightarrow>
          (case validate_source d of Inl e \<Rightarrow> Inl e | Inr u \<Rightarrow>
          (case parse_photometry d of Inl e \<Rightarrow> Inl e | Inr photometry \<Rightarrow>
          (case parse_spectra d of Inl e \<Rightarrow> Inl e | Inr spectra \<Rightarrow>
          (case py_item d ''id'' of Inl e \<Rightarrow> Inl e | Inr v_id \<Rightarrow>
          (case py_item d ''ra'' of Inl e \<Rightarrow> Inl e | Inr v_ra \<Rightarrow>
          (case py_item d ''dec'' of Inl e \<Rightarrow> Inl e | Inr v_dec \<Rightarrow>
          (case parse_label d of Inl e \<Rightarrow> Inl e | Inr label \<Rightarrow>
             Inr (Some
               [(''id'', v_id),
                (''ra'', v_ra),
                (''dec'', v_dec),
                (''score'', py_get d ''score''),
                (''is_transient'', py_get d ''transient''),
                (''is_varstar'', py_get d ''varstar''),
                (''is_roid'', py_get d ''is_roid''),
                (''redshift'', py_get d ''redshift''),
                (''label'', label),
                (''has_tns'', JBool (isinstance_dict (py_get d ''tns_info''))),
                (''has_redshift'', JBool (py_get d ''redshift'' \<noteq> JNull)),
                (''has_photometry'', JBool (length photometry > 0)),
                (''has_spectra'', JBool (length spectra > 0)),
                (''n_photometry'', JInt (int (length photometry))),
                (''n_spectra'', JInt (int (length spectra)))]))))))))
      | _ \<Rightarrow> Inr None)"

text \<open>The loop of \<^verbatim>\<open>build_dataset\<close>, with the list \<^verbatim>\<open>rows\<close> it appends to; an
  exception raised by \<^verbatim>\<open>source_to_row\<close> leaves the loop and the function.\<close>

fun build_dataset_loop :: "'f::zero json list \<Rightarrow> 'f pydict list \<Rightarrow> error + 'f pydict list" where
  "build_dataset_loop [] rows = Inr rows"
| "build_dataset_loop (obj # data) rows =
     (if \<not> isinstance_dict obj then build_dataset_loop data rows
      else case source_to_row obj of
             Inl e \<Rightarrow> Inl e
           | Inr None \<Rightarrow> build_dataset_loop data rows
           | Inr (Some row) \<Rightarrow> build_dataset_loop data (rows @ [row]))"

definition build_dataset :: "'f::zero json list \<Rightarrow> error + 'f dataframe" where
  "build_dataset data =
     (case build_dataset_loop data [] of
        Inl e \<Rightarrow> Inl e
      | Inr rows \<Rightarrow> Inr (pd_DataFrame rows))"

section \<open>lightcurves.py\<close>

definition photometry_point_to_row :: "'f::zero json \<Rightarrow> 'f json \<Rightarrow> 'f pydict option" where
  "photometry_point_to_row source_id point =
     (case point of
        JObj p \<Rightarrow>
          (let jd = py_get p ''jd'';
               flux = py_get p ''flux''
           in if jd = JNull then None
              else
                (let filters = py_or (py_get p ''filters'') (JObj []);
                     filt_name = (case filters of JObj f \<Rightarrow> py_get f ''name'' | _ \<Rightarrow> JNull)
                 in Some
                   [(''id'', source_id),
                    (''jd'', jd),
                    (''flux'', flux),
                    (''flux_err'', py_get p ''fluxerr''),
                    (''filter'', filt_name),
                    (''is_detection'', JBool (flux \<noteq> JNull))]))
      | _ \<Rightarrow> None)"

text \<open>The loop over the photometry points of one source, shared by
  \<^verbatim>\<open>source_to_lightcurve_rows\<close> and \<^verbatim>\<open>build_lightcurve_dataset\<close>.\<close>

fun points_loop :: "'f::zero json \<Rightarrow> 'f json list \<Rightarrow> 'f pydict list \<Rightarrow> 'f pydict list" where
  "points_loop source_id [] rows = rows"
| "points_loop source_id (point # photometry) rows =
     (case photometry_point_to_row source_id point of
        None \<Rightarrow> points_loop source_id photometry rows
      | Some row \<Rightarrow> points_loop source_id photometry (rows @ [row]))"

definition source_to_lightcurve_rows :: "'f::zero pydict \<Rightarrow> error + 'f pydict list" where
  "source_to_lightcurve_rows obj =
     (let source_id = py_get obj ''id'' in
      case parse_photometry obj of
        Inl e \<Rightarrow> Inl e
      | Inr photometry \<Rightarrow> Inr (points_loop source_id photometry []))"

fun build_lightcurve_loop ::
    "'f::zero json list \<Rightarrow> 'f pydict list \<Rightarrow> error + 'f pydict list" where
  "build_lightcurve_loop [] rows = Inr rows"
| "build_lightcurve_loop (JObj d # data) rows =
     (let source_id = py_get d ''id'' in
      if source_id = JNull then build_lightcurve_loop data rows
      else case parse_photometry d of
             Inl e \<Rightarrow> Inl e
           | Inr photometry \<Rightarrow>
               build_lightcurve_loop data (points_loop source_id photometry rows))"
| "build_lightcurve_loop (obj # data) rows = build_lightcurve_loop data rows"

definition build_lightcurve_dataset :: "'f::zero json list \<Rightarrow> error + 'f dataframe" where
  "build_lightcurve_dataset data =
     (case build_lightcurve_loop data [] of
        Inl e \<Rightarrow> Inl e
      | Inr rows \<Rightarrow> Inr (pd_DataFrame rows))"

section \<open>llm_copilot.py\<close>

text \<open>
  The lightcurve table read by the summarizer: the names of its columns and one record
  per row, with the typed view pandas gives of the cells: a null (\<^verbatim>\<open>None\<close> or
  \<^verbatim>\<open>NaN\<close>) cell of \<^verbatim>\<open>flux\<close>, \<^verbatim>\<open>flux_err\<close> or \<^verbatim>\<open>filter\<close> is \<open>None\<close>. The
  flattener emits no row without \<^verbatim>\<open>jd\<close>, so that column has no null cell. The numbers
  of the float columns are kept abstract: the summarizer only compares and subtracts them.
\<close>

record 'f lc_row =
  col_id :: "'f json"
  col_jd :: "'f"
  col_flux :: "'f option"
  col_flux_err :: "'f option"
  col_filter :: "string option"
  col_is_detection :: bool

record 'f lc_frame =
  lc_columns :: "string list"
  lc_rows :: "'f lc_row list"

text \<open>\<^verbatim>\<open>Series.dropna()\<close>, and \<^verbatim>\<open>Series.min()\<close> and \<^verbatim>\<open>Series.max()\<close> on the non-null cells;
  on a series without cells they have no number to return (pandas gives \<^verbatim>\<open>NaN\<close>).\<close>

definition dropna :: "'a option list \<Rightarrow> 'a list" where
  "dropna cells = List.map_filter (\<lambda>c. c) cells"

fun series_min :: "'a::linorder list \<Rightarrow> 'a option" where
  "series_min [] = None"
| "series_min (x # xs) = Some (fold min xs x)"

fun series_max :: "'a::linorder list \<Rightarrow> 'a option" where
  "series_max [] = None"
| "series_max (x # xs) = Some (fold max xs x)"

text \<open>\<^verbatim>\<open>float(...)\<close> of the scalar a reduction returned: a number, or \<^verbatim>\<open>NaN\<close> when
  there was no cell to reduce.\<close>

fun py_float :: "'f option \<Rightarrow> 'f json" where
  "py_float (Some x) = JFloat x"
| "py_float None = JNaN"

text \<open>\<^verbatim>\<open>d.update(u)\<close>: a key of \<open>d\<close> keeps its place, a new key is appended.\<close>

definition py_update :: "'f pydict \<Rightarrow> 'f pydict \<Rightarrow> 'f pydict" where
  "py_update d u = fold (\<lambda>(k, v). AList.update k v) u d"

text \<open>\<^verbatim>\<open>lc[name]\<close>: the cells of a column, and \<^verbatim>\<open>KeyError\<close> when the table has no
  column of that name. \<^verbatim>\<open>lc[mask]\<close> keeps the rows whose mask cell is true.\<close>

definition frame_column ::
    "'f lc_frame \<Rightarrow> string \<Rightarrow> ('f lc_row \<Rightarrow> 'a) \<Rightarrow> error + 'a list" where
  "frame_column lc name cell =
     (if name \<in> set (lc_columns lc) then Inr (map cell (lc_rows lc))
      else Inl (KeyError name))"

definition frame_mask :: "'f lc_frame \<Rightarrow> bool list \<Rightarrow> 'f lc_frame" where
  "frame_mask lc keep = lc\<lparr>lc_rows := map fst (filter snd (zip (lc_rows lc) keep))\<rparr>"

definition summarize_lightcurve :: "('f::{linorder,minus}) lc_frame \<Rightarrow> error + 'f pydict" where
  "summarize_lightcurve lc =
     (case frame_column lc ''flux'' col_flux of
        Inl e \<Rightarrow> Inl e
      | Inr flux \<Rightarrow>
         (let detections = frame_mask lc (map (\<lambda>c. c \<noteq> None) flux) in
          case frame_column lc ''filter'' col_filter of
            Inl e \<Rightarrow> Inl e
          | Inr filters \<Rightarrow>
             (let summary =
                [(''n_points'', JInt (int (length (lc_rows lc)))),
                 (''n_detections'', JInt (int (length (lc_rows detections)))),
                 (''filters'', JList (map JStr (sort (pd_unique (dropna filters)))))]
              in if lc_rows detections \<noteq> []
                 then
                  (case frame_column detections ''flux'' col_flux of
                     Inl e \<Rightarrow> Inl e
                   | Inr det_flux \<Rightarrow>
                      (case frame_column detections ''jd'' col_jd of
                         Inl e \<Rightarrow> Inl e
                       | Inr det_jd \<Rightarrow>
                           Inr (py_update summary
                             [(''flux_min'', py_float (series_min (dropna det_flux))),
                              (''flux_max'', py_float (series_max (dropna det_flux))),
                              (''time_span_days'',
                                 py_float
                                   (case (series_max det_jd, series_min det_jd) of
                                      (Some hi, Some lo) \<Rightarrow> Some (hi - lo)
                                    | _ \<Rightarrow> None))])))
                 else Inr (py_update summary
                        [(''flux_min'', JNull),
                         (''flux_max'', JNull),
                         (''time_span_days'', JNull)]))))"

text \<open>
  \<^verbatim>\<open>str(v)\<close>, as an f-string field renders a value. The text of a float and of a list or
  dict (their \<^verbatim>\<open>repr\<close>) is the parameter \<open>repr\<close>.
\<close>

fun digits :: "nat \<Rightarrow> string" where
  "digits n =
     (if n < 10 then [char_of (48 + n)]
      else digits (n div 10) @ [char_of (48 + n mod 10)])"

definition str_int :: "int \<Rightarrow> string" where
  "str_int i = (if i < 0 then CHR ''-'' # digits (nat (- i)) else digits (nat i))"

fun py_str :: "('f json \<Rightarrow> string) \<Rightarrow> 'f json \<Rightarrow> string" where
  "py_str repr JNull = ''None''"
| "py_str repr (JBool b) = (if b then ''True'' else ''False'')"
| "py_str repr (JInt i) = str_int i"
| "py_str repr (JStr s) = s"
| "py_str repr JNaN = ''nan''"
| "py_str repr v = repr v"

text \<open>\<^verbatim>\<open>s.strip()\<close>: the characters for which \<^verbatim>\<open>str.isspace\<close> holds, among the
  one-byte characters, are removed from both ends.\<close>

definition is_space :: "char \<Rightarrow> bool" where
  "is_space c \<longleftrightarrow>
     c \<in> set [CHR 0x09, CHR 0x0A, CHR 0x0B, CHR 0x0C, CHR 0x0D,
              CHR 0x1C, CHR 0x1D, CHR 0x1E, CHR 0x1F, CHR 0x20, CHR 0x85, CHR 0xA0]"

definition py_strip :: "string \<Rightarrow> string" where
  "py_strip s = rev (dropWhile is_space (rev (dropWhile is_space s)))"

definition nl :: string where
  "nl = [CHR 0x0A]"

text \<open>The lines of the f-string of \<^verbatim>\<open>build_prompt\<close> between the opening quotes, which a
  newline follows, and the closing quotes, which a newline precedes.\<close>

definition prompt_lines :: "('f json \<Rightarrow> string) \<Rightarrow> 'f pydict \<Rightarrow> 'f pydict \<Rightarrow> string list" where
  "prompt_lines repr source_row lc_summary =
     [''The astronomer is mainly interested in:'',
      ''- Supernovae'',
      ''- Kilonovae'',
      ''- Other extragalactic transients'',
      [],
      ''They want to avoid:'',
      ''- Galactic variable stars'',
      ''- Minor objects'',
      ''- Artifacts'',
      [],
      ''=== Source metadata ==='',
      ''ID: '' @ py_str repr (py_get source_row ''id''),
      ''RA / Dec: '' @ py_str repr (py_get source_row ''ra'') @ '', ''
         @ py_str repr (py_get source_row ''dec''),
      ''Detection score: '' @ py_str repr (py_get source_row ''score''),
      [],
      ''Pipeline flags:'',
      ''- Is transient (heuristic): '' @ py_str repr (py_get source_row ''is_transient''),
      ''- Is variable star: '' @ py_str repr (py_get source_row ''is_varstar''),
      ''- Is minor object: '' @ py_str repr (py_get source_row ''is_roid''),
      [],
      ''High-confidence signals:'',
      ''- TNS reported: '' @ py_str repr (py_get source_row ''has_tns''),
      ''- Redshift available: '' @ py_str repr (py_get source_row ''has_redshift''),
      ''- Spectra available: '' @ py_str repr (py_get source_row ''has_spectra''),
      ''- Redshift value: '' @ py_str repr (py_get source_row ''redshift''),
      ''- TNS label (if any): '' @ py_str repr (py_get source_row ''label''),
      [],
      ''=== Lightcurve summary ==='',
      ''Number of photometry points: '' @ py_str repr (py_get lc_summary ''n_points''),
      ''Number of detections: '' @ py_str repr (py_get lc_summary ''n_detections''),
      ''Filters used: '' @ py_str repr (py_get lc_summary ''filters''),
      ''Flux range: '' @ py_str repr (py_get lc_summary ''flux_min'') @ '' to ''
         @ py_str repr (py_get lc_summary ''flux_max''),
      ''Observed time span (days): '' @ py_str repr (py_get lc_summary ''time_span_days''),
      [],
      ''=== Task ==='',
      ''1. Summarize the key information an astronomer should know.'',
      ''2. Is this transient likely extragalactic? Briefly justify.'',
      ''3. Does this transient deserve follow-up observations?'',
      ''4. If yes, suggest what kind of follow-up (e.g. spectroscopy, more photometry).'',
      [],
      ''Be concise and explicit about uncertainty.'']"

definition join_lines :: "string list \<Rightarrow> string" where
  "join_lines ls = concat (map (\<lambda>l. l @ nl) ls)"

definition build_prompt :: "('f json \<Rightarrow> string) \<Rightarrow> 'f pydict \<Rightarrow> 'f pydict \<Rightarrow> string" where
  "build_prompt repr source_row lc_summary =
     py_strip (nl @ join_lines (prompt_lines repr source_row lc_summary))"

section \<open>Record validation\<close>

lemma check_fields_find:
  "check_fields fs obj =
     (case find (\<lambda>f. \<not> py_in f obj) fs of
        None \<Rightarrow> Inr ()
      | Some f \<Rightarrow> Inl (KeyError (''Missing required field: '' @ f)))"
  by (induction fs) simp_all

lemma py_in_keys: "py_in k d \<longleftrightarrow> k \<in> fst ` set d"
  by (simp add: py_in_def map_of_eq_None_iff)

text \<open>
  C1. For every source record, validation raises the missing-field error that names the
  first field among \<open>id\<close>, \<open>ra\<close>, \<open>dec\<close>, \<open>score\<close> (in that order) that is not a key of
  the record, and returns normally, with nothing but the unit value, exactly when all four
  are keys, whatever other keys the record has or lacks.
\<close>

theorem validate_source_first_missing:
  "validate_source obj =
     (case find (\<lambda>f. f \<notin> fst ` set obj) [''id'', ''ra'', ''dec'', ''score''] of
        None \<Rightarrow> Inr ()
      | Some f \<Rightarrow> Inl (KeyError (''Missing required field: '' @ f)))
   \<and> (validate_source obj = Inr () \<longleftrightarrow>
        {''id'', ''ra'', ''dec'', ''score''} \<subseteq> fst ` set obj)"
proof -
  have eq: "validate_source obj =
     (case find (\<lambda>f. f \<notin> fst ` set obj) [''id'', ''ra'', ''dec'', ''score''] of
        None \<Rightarrow> Inr ()
      | Some f \<Rightarrow> Inl (KeyError (''Missing required field: '' @ f)))"
    unfolding validate_source_def required_fields_def check_fields_find py_in_keys ..
  have "validate_source obj = Inr () \<longleftrightarrow>
          find (\<lambda>f. f \<notin> fst ` set obj) [''id'', ''ra'', ''dec'', ''score''] = None"
    unfolding eq by (simp split: option.splits)
  also have "\<dots> \<longleftrightarrow> {''id'', ''ra'', ''dec'', ''score''} \<subseteq> fst ` set obj"
    unfolding find_None_iff by auto
  finally show ?thesis
    using eq by (rule_tac conjI)
qed

theorem validate_source_first_missing_witness:
  "validate_source [(''id'', JInt 7 :: real json), (''score'', JNull), (''extra'', JStr ''x'')]
     = Inl (KeyError ''Missing required field: ra'')
   \<and> validate_source
       [(''score'', JInt 1 :: real json), (''dec'', JInt 2), (''ra'', JInt 3), (''id'', JNull)]
     = Inr ()"
  using validate_source_first_missing
          [of "[(''id'', JInt 7 :: real json), (''score'', JNull), (''extra'', JStr ''x'')]"]
        validate_source_first_missing
          [of "[(''score'', JInt 1 :: real json), (''dec'', JInt 2), (''ra'', JInt 3),
                (''id'', JNull)]"]
  by simp

section \<open>Field extraction\<close>

lemma parse_photometry_cases:
  "parse_photometry obj =
     (case py_get obj ''tns_info'' of
        JObj t \<Rightarrow> (case py_get t ''photometry'' of JList ps \<Rightarrow> Inr ps | _ \<Rightarrow> Inr [])
      | v \<Rightarrow> if truthy v then Inl (AttributeError (type_name v)) else Inr [])"
  by (auto simp: parse_photometry_def py_or_def py_get_def Let_def split: json.splits option.splits)

lemma parse_spectra_cases:
  "parse_spectra obj =
     (case py_get obj ''tns_info'' of
        JObj t \<Rightarrow> (case py_get t ''spectra'' of JList ps \<Rightarrow> Inr ps | _ \<Rightarrow> Inr [])
      | v \<Rightarrow> if truthy v then Inl (AttributeError (type_name v)) else Inr [])"
  by (auto simp: parse_spectra_def py_or_def py_get_def Let_def split: json.splits option.splits)

lemma parse_photometry_error: "parse_photometry obj = Inl e \<Longrightarrow> \<exists>t. e = AttributeError t"
  by (auto simp: parse_photometry_cases split: json.splits if_splits)

text \<open>
  C2. Photometry and spectra extraction are claimed never to fail and to return the empty
  list when \<open>tns_info\<close> is not an object. On the record \<^verbatim>\<open>{"tns_info": "SN"}\<close> the
  value of \<open>tns_info\<close> is a non-empty string: it is truthy, so \<^verbatim>\<open>or {}\<close> keeps it, and
  the call of its \<^verbatim>\<open>get\<close> raises \<^verbatim>\<open>AttributeError\<close> in both extractors.
\<close>

theorem parse_nested_list_raises_on_non_dict_tns:
  "parse_photometry [(''tns_info'', JStr ''SN'')] = Inl (AttributeError ''str'')
   \<and> parse_spectra [(''tns_info'', JStr ''SN'')] = Inl (AttributeError ''str'')"
  by (simp add: parse_photometry_def parse_spectra_def py_or_def py_get_def)

section \<open>The source-level builder\<close>

lemma build_dataset_loop_append:
  "build_dataset_loop (xs @ ys) rows =
     (case build_dataset_loop xs rows of
        Inl e \<Rightarrow> Inl e
      | Inr rows' \<Rightarrow> build_dataset_loop ys rows')"
  by (induction xs arbitrary: rows) (auto split: sum.splits option.splits)

lemma build_dataset_loop_ok:
  "\<forall>x\<in>set xs. \<exists>r. source_to_row x = Inr r \<Longrightarrow> \<exists>rows'. build_dataset_loop xs rows = Inr rows'"
  by (induction xs arbitrary: rows) (auto split: sum.splits option.splits)

lemma build_dataset_loop_invalid:
  "validate_source d = Inl e \<Longrightarrow> build_dataset_loop (JObj d # post) rows = Inl e"
  by (simp add: source_to_row_def)

text \<open>
  C3. In the source-level builder an entry that is not a mapping is skipped: the build
  gives what it gives without that entry. A mapping for which validation raises makes the
  whole build raise, whatever precedes and follows it; and when no earlier entry raises,
  the build raises that very validation error.
\<close>

theorem build_dataset_skip_and_abort:
  "(\<not> isinstance_dict x \<longrightarrow> build_dataset (pre @ x # post) = build_dataset (pre @ post))
   \<and> (validate_source d = Inl e \<longrightarrow> (\<exists>e'. build_dataset (pre @ JObj d # post) = Inl e'))
   \<and> (validate_source d = Inl e \<and> (\<forall>y\<in>set pre. \<exists>r. source_to_row y = Inr r)
        \<longrightarrow> build_dataset (pre @ JObj d # post) = Inl e)"
proof (intro conjI impI)
  assume "\<not> isinstance_dict x"
  then have step: "build_dataset_loop (x # post) rows = build_dataset_loop post rows" for rows
    by simp
  show "build_dataset (pre @ x # post) = build_dataset (pre @ post)"
    by (cases "build_dataset_loop pre []")
       (simp_all add: build_dataset_def build_dataset_loop_append step
          del: build_dataset_loop.simps)
next
  assume "validate_source d = Inl e"
  then have step: "build_dataset_loop (JObj d # post) rows = Inl e" for rows
    by (rule build_dataset_loop_invalid)
  show "\<exists>e'. build_dataset (pre @ JObj d # post) = Inl e'"
    by (cases "build_dataset_loop pre []")
       (simp_all add: build_dataset_def build_dataset_loop_append step
          del: build_dataset_loop.simps)
next
  assume a: "validate_source d = Inl e \<and> (\<forall>y\<in>set pre. \<exists>r. source_to_row y = Inr r)"
  then obtain rows' where "build_dataset_loop pre [] = Inr rows'"
    using build_dataset_loop_ok by blast
  moreover have "build_dataset_loop (JObj d # post) rows' = Inl e"
    using a by (intro build_dataset_loop_invalid) simp
  ultimately show "build_dataset (pre @ JObj d # post) = Inl e"
    by (simp add: build_dataset_def build_dataset_loop_append del: build_dataset_loop.simps)
qed

theorem build_dataset_skip_and_abort_witness:
  "build_dataset
     [JObj [(''id'', JInt 1), (''ra'', JInt 0), (''dec'', JInt 0), (''score'', JFloat (0.5::real))],
      JStr ''not-a-dict'',
      JObj [(''id'', JInt 2), (''ra'', JInt 1), (''dec'', JInt 1), (''score'', JFloat 0.2)]]
   = build_dataset
     [JObj [(''id'', JInt 1), (''ra'', JInt 0), (''dec'', JInt 0), (''score'', JFloat (0.5::real))],
      JObj [(''id'', JInt 2), (''ra'', JInt 1), (''dec'', JInt 1), (''score'', JFloat 0.2)]]
   \<and> build_dataset
     [JObj [(''id'', JInt 1), (''ra'', JInt 0), (''dec'', JInt 0), (''score'', JFloat (0.5::real))],
      JObj [(''id'', JInt 3), (''ra'', JInt 0), (''score'', JFloat 0.1)],
      JObj [(''id'', JInt 2), (''ra'', JInt 1), (''dec'', JInt 1), (''score'', JFloat 0.2)]]
   = Inl (KeyError ''Missing required field: dec'')"
proof -
  let ?a = "JObj [(''id'', JInt 1), (''ra'', JInt 0), (''dec'', JInt 0), (''score'', JFloat (0.5::real))]"
  let ?b = "JObj [(''id'', JInt 2), (''ra'', JInt 1), (''dec'', JInt 1), (''score'', JFloat (0.2::real))]"
  let ?d = "[(''id'', JInt 3), (''ra'', JInt 0), (''score'', JFloat (0.1::real))]"
  have h1: "\<not> isinstance_dict (JStr ''not-a-dict'' :: real json)"
    by simp
  have h2: "validate_source ?d = Inl (KeyError ''Missing required field: dec'')"
    by (simp add: validate_source_def required_fields_def py_in_def)
  have h3: "\<forall>y\<in>set [?a]. \<exists>r. source_to_row y = Inr r"
    by (simp add: source_to_row_def validate_source_def required_fields_def py_in_def
          parse_photometry_cases parse_spectra_cases parse_label_def py_item_def py_get_def
          py_or_def)
  show ?thesis
    using build_dataset_skip_and_abort
            [where x = "JStr ''not-a-dict''" and pre = "[?a]" and post = "[?b]" and d = ?d
               and e = "KeyError ''Missing required field: dec''"]
          h1 h2 h3
    by simp
qed

section \<open>The lightcurve flattener\<close>

lemma py_get_null_iff: "py_get d k = JNull \<longleftrightarrow> map_of d k = None \<or> map_of d k = Some JNull"
  by (auto simp: py_get_def split: option.splits)

lemma filter_name_cases:
  "(case py_or v (JObj []) of JObj f \<Rightarrow> py_get f k | _ \<Rightarrow> JNull)
     = (case v of JObj f \<Rightarrow> py_get f k | _ \<Rightarrow> JNull)"
  by (cases v) (auto simp: py_or_def py_get_def)

text \<open>
  C5. A photometry point that is not a mapping, or whose \<open>jd\<close> is absent (no key, or
  null), gives no row. A mapping with a \<open>jd\<close> gives a row that carries the source
  identifier and the \<open>jd\<close>, whose \<open>is_detection\<close> says that \<open>flux\<close> is a key with
  a non-null value (so it is false when \<open>flux\<close> is absent), and whose \<open>filter\<close> is the
  \<open>name\<close> of \<open>filters\<close> when that is a mapping and null otherwise. The function is total:
  it never raises.
\<close>

theorem photometry_point_to_row_contract:
  "(\<not> isinstance_dict point \<longrightarrow> photometry_point_to_row sid point = None)
   \<and> (map_of p0 ''jd'' = None \<or> map_of p0 ''jd'' = Some JNull
        \<longrightarrow> photometry_point_to_row sid (JObj p0) = None)
   \<and> (map_of p ''jd'' = Some jd \<and> jd \<noteq> JNull \<longrightarrow>
        (\<exists>row. photometry_point_to_row sid (JObj p) = Some row
           \<and> map_of row ''id'' = Some sid
           \<and> map_of row ''jd'' = Some jd
           \<and> map_of row ''is_detection''
                = Some (JBool (\<exists>v. map_of p ''flux'' = Some v \<and> v \<noteq> JNull))
           \<and> map_of row ''filter''
                = Some (case py_get p ''filters'' of JObj f \<Rightarrow> py_get f ''name'' | _ \<Rightarrow> JNull)))
   \<and> (map_of p1 ''jd'' = Some jd1 \<and> jd1 \<noteq> JNull \<and> map_of p1 ''flux'' = None \<longrightarrow>
        (\<exists>row. photometry_point_to_row sid (JObj p1) = Some row
           \<and> map_of row ''is_detection'' = Some (JBool False)))"
proof (intro conjI impI)
  assume "\<not> isinstance_dict point"
  then show "photometry_point_to_row sid point = None"
    by (cases point) (simp_all add: photometry_point_to_row_def)
next
  assume "map_of p0 ''jd'' = None \<or> map_of p0 ''jd'' = Some JNull"
  then have "py_get p0 ''jd'' = JNull"
    by (simp add: py_get_null_iff)
  then show "photometry_point_to_row sid (JObj p0) = None"
    by (simp add: photometry_point_to_row_def)
next
  assume a: "map_of p ''jd'' = Some jd \<and> jd \<noteq> JNull"
  then have jd: "py_get p ''jd'' = jd"
    by (simp add: py_get_def)
  have fl: "(py_get p ''flux'' \<noteq> JNull) = (\<exists>v. map_of p ''flux'' = Some v \<and> v \<noteq> JNull)"
    by (auto simp: py_get_def split: option.splits)
  show "\<exists>row. photometry_point_to_row sid (JObj p) = Some row
           \<and> map_of row ''id'' = Some sid
           \<and> map_of row ''jd'' = Some jd
           \<and> map_of row ''is_detection''
                = Some (JBool (\<exists>v. map_of p ''flux'' = Some v \<and> v \<noteq> JNull))
           \<and> map_of row ''filter''
                = Some (case py_get p ''filters'' of JObj f \<Rightarrow> py_get f ''name'' | _ \<Rightarrow> JNull)"
    using a by (simp add: photometry_point_to_row_def jd fl filter_name_cases)
next
  assume a: "map_of p1 ''jd'' = Some jd1 \<and> jd1 \<noteq> JNull \<and> map_of p1 ''flux'' = None"
  then have "py_get p1 ''jd'' = jd1" "py_get p1 ''flux'' = JNull"
    by (simp_all add: py_get_def)
  then show "\<exists>row. photometry_point_to_row sid (JObj p1) = Some row
           \<and> map_of row ''is_detection'' = Some (JBool False)"
    using a by (simp add: photometry_point_to_row_def)
qed

theorem photometry_point_to_row_contract_witness:
  "photometry_point_to_row (JStr ''ZTF1'') (JStr ''x'' :: real json) = None
   \<and> photometry_point_to_row (JStr ''ZTF1'') (JObj [(''flux'', JFloat (1.5::real))]) = None
   \<and> (\<exists>row. photometry_point_to_row (JStr ''ZTF1'')
          (JObj [(''jd'', JFloat (2460000.5::real)), (''flux'', JFloat 1.5), (''filters'', JStr ''g'')])
          = Some row
        \<and> map_of row ''is_detection'' = Some (JBool True)
        \<and> map_of row ''filter'' = Some JNull)
   \<and> (\<exists>row. photometry_point_to_row (JStr ''ZTF1'')
          (JObj [(''jd'', JFloat (2460000.5::real))]) = Some row
        \<and> map_of row ''is_detection'' = Some (JBool False))"
  using photometry_point_to_row_contract
    [where sid = "JStr ''ZTF1''" and point = "JStr ''x'' :: real json"
       and ?p0.0 = "[(''flux'', JFloat (1.5::real))]"
       and p = "[(''jd'', JFloat (2460000.5::real)), (''flux'', JFloat 1.5), (''filters'', JStr ''g'')]"
       and jd = "JFloat 2460000.5"
       and ?p1.0 = "[(''jd'', JFloat (2460000.5::real))]"
       and ?jd1.0 = "JFloat 2460000.5"]
  by (auto simp: py_get_def)

section \<open>The source flattener\<close>

text \<open>
  C6. Whenever the source flattener returns a row for a record, the record is a mapping
  that passes validation, both extractors return a list for it, and the row's
  \<open>n_photometry\<close> is the length of the extracted photometry list, its
  \<open>has_photometry\<close> says that this number is positive, and likewise \<open>n_spectra\<close> and
  \<open>has_spectra\<close> for the extracted spectra list.
\<close>

theorem source_row_counts:
  "source_to_row obj = Inr (Some row) \<Longrightarrow>
     \<exists>d photometry spectra.
       obj = JObj d
       \<and> validate_source d = Inr ()
       \<and> parse_photometry d = Inr photometry
       \<and> parse_spectra d = Inr spectra
       \<and> map_of row ''n_photometry'' = Some (JInt (int (length photometry)))
       \<and> map_of row ''has_photometry'' = Some (JBool (int (length photometry) > 0))
       \<and> map_of row ''n_spectra'' = Some (JInt (int (length spectra)))
       \<and> map_of row ''has_spectra'' = Some (JBool (int (length spectra) > 0))"
  by (cases obj) (auto simp: source_to_row_def split: sum.splits)

theorem source_row_counts_witness:
  "\<exists>row. source_to_row
      (JObj [(''id'', JInt 1), (''ra'', JInt 0), (''dec'', JInt 0), (''score'', JFloat (0.5::real)),
             (''tns_info'', JObj [(''photometry'', JList [JObj [(''jd'', JInt 5)], JInt 3]),
                                  (''spectra'', JStr ''none'')])])
      = Inr (Some row)
     \<and> map_of row ''n_photometry'' = Some (JInt 2)
     \<and> map_of row ''has_photometry'' = Some (JBool True)
     \<and> map_of row ''n_spectra'' = Some (JInt 0)
     \<and> map_of row ''has_spectra'' = Some (JBool False)"
proof -
  let ?obj = "JObj [(''id'', JInt 1), (''ra'', JInt 0), (''dec'', JInt 0), (''score'', JFloat (0.5::real)),
             (''tns_info'', JObj [(''photometry'', JList [JObj [(''jd'', JInt 5)], JInt 3]),
                                  (''spectra'', JStr ''none'')])]"
  obtain row where r: "source_to_row ?obj = Inr (Some row)"
    by (simp add: source_to_row_def validate_source_def required_fields_def py_in_def
          parse_photometry_cases parse_spectra_cases parse_label_def py_item_def py_get_def
          py_or_def)
  from source_row_counts [OF r] show ?thesis
    using r by (auto simp: parse_photometry_cases parse_spectra_cases py_get_def)
qed

section \<open>The columns of the built tables\<close>

lemma fold_unique_absorb:
  "set xs \<subseteq> set acc \<Longrightarrow>
     fold (\<lambda>x acc. if x \<in> set acc then acc else acc @ [x]) xs acc = acc"
  by (induction xs arbitrary: acc) auto

lemma fold_unique_distinct:
  "distinct (acc @ xs) \<Longrightarrow>
     fold (\<lambda>x acc. if x \<in> set acc then acc else acc @ [x]) xs acc = acc @ xs"
  by (induction xs arbitrary: acc) auto

lemma pd_unique_same_keys:
  assumes "distinct ks" and "rows \<noteq> []" and "\<forall>r\<in>set rows. map fst r = ks"
  shows "pd_unique (concat (map (map fst) rows)) = ks"
proof -
  obtain r rs where rows: "rows = r # rs"
    using assms(2) by (cases rows) auto
  have hd: "map fst r = ks" and tl: "set (concat (map (map fst) rs)) \<subseteq> set ks"
    using assms(3) by (auto simp: rows)
  have "fold (\<lambda>x acc. if x \<in> set acc then acc else acc @ [x]) ks [] = ks"
    using fold_unique_distinct [of "[]" ks] assms(1) by simp
  then show ?thesis
    using tl by (simp add: pd_unique_def rows hd fold_unique_absorb)
qed

lemma source_to_row_keys:
  "source_to_row obj = Inr (Some row) \<Longrightarrow>
     map fst row =
       [''id'', ''ra'', ''dec'', ''score'', ''is_transient'', ''is_varstar'', ''is_roid'',
        ''redshift'', ''label'', ''has_tns'', ''has_redshift'', ''has_photometry'',
        ''has_spectra'', ''n_photometry'', ''n_spectra'']"
  by (cases obj) (auto simp: source_to_row_def split: sum.splits)

lemma photometry_point_to_row_keys:
  "photometry_point_to_row sid point = Some row \<Longrightarrow>
     map fst row = [''id'', ''jd'', ''flux'', ''flux_err'', ''filter'', ''is_detection'']"
  by (cases point) (auto simp: photometry_point_to_row_def Let_def split: if_splits)

lemma build_dataset_loop_keys:
  "build_dataset_loop data rows = Inr rows' \<Longrightarrow> \<forall>r\<in>set rows. map fst r = ks \<Longrightarrow>
   ks = [''id'', ''ra'', ''dec'', ''score'', ''is_transient'', ''is_varstar'', ''is_roid'',
        ''redshift'', ''label'', ''has_tns'', ''has_redshift'', ''has_photometry'',
        ''has_spectra'', ''n_photometry'', ''n_spectra''] \<Longrightarrow>
   \<forall>r\<in>set rows'. map fst r = ks"
proof (induction data arbitrary: rows)
  case Nil
  then show ?case by simp
next
  case (Cons obj data)
  show ?case
  proof (cases "isinstance_dict obj")
    case False
    with Cons show ?thesis by simp
  next
    case True
    show ?thesis
    proof (cases "source_to_row obj")
      case (Inl e)
      with Cons.prems True show ?thesis by simp
    next
      case (Inr r)
      show ?thesis
      proof (cases r)
        case None
        with Cons Inr True show ?thesis by simp
      next
        case (Some row)
        have "map fst row = ks"
          using source_to_row_keys Inr Some Cons.prems(3) by blast
        with Cons.prems have "\<forall>r\<in>set (rows @ [row]). map fst r = ks"
          by simp
        moreover have "build_dataset_loop data (rows @ [row]) = Inr rows'"
          using Cons.prems(1) True Inr Some by simp
        ultimately show ?thesis
          using Cons.IH Cons.prems(3) by blast
      qed
    qed
  qed
qed

lemma points_loop_keys:
  "\<forall>r\<in>set rows. map fst r = [''id'', ''jd'', ''flux'', ''flux_err'', ''filter'', ''is_detection''] \<Longrightarrow>
   \<forall>r\<in>set (points_loop sid ph rows).
      map fst r = [''id'', ''jd'', ''flux'', ''flux_err'', ''filter'', ''is_detection'']"
proof (induction ph arbitrary: rows)
  case Nil
  then show ?case by simp
next
  case (Cons point ph)
  show ?case
  proof (cases "photometry_point_to_row sid point")
    case None
    with Cons show ?thesis by simp
  next
    case (Some row)
    then have "map fst row = [''id'', ''jd'', ''flux'', ''flux_err'', ''filter'', ''is_detection'']"
      by (rule photometry_point_to_row_keys)
    with Cons.prems have
      "\<forall>r\<in>set (rows @ [row]). map fst r = [''id'', ''jd'', ''flux'', ''flux_err'', ''filter'', ''is_detection'']"
      by simp
    from Cons.IH [OF this] Some show ?thesis by simp
  qed
qed

lemma build_lightcurve_loop_keys:
  "build_lightcurve_loop data rows = Inr rows' \<Longrightarrow>
   \<forall>r\<in>set rows. map fst r = [''id'', ''jd'', ''flux'', ''flux_err'', ''filter'', ''is_detection''] \<Longrightarrow>
   \<forall>r\<in>set rows'. map fst r = [''id'', ''jd'', ''flux'', ''flux_err'', ''filter'', ''is_detection'']"
proof (induction data rows rule: build_lightcurve_loop.induct)
  case (1 rows)
  then show ?case by simp
next
  case (2 d data rows)
  show ?case
  proof (cases "py_get d ''id'' = JNull")
    case True
    with 2 show ?thesis by simp
  next
    case False
    show ?thesis
    proof (cases "parse_photometry d")
      case (Inl e)
      with 2 False show ?thesis by simp
    next
      case (Inr ph)
      have "\<forall>r\<in>set (points_loop (py_get d ''id'') ph rows).
              map fst r = [''id'', ''jd'', ''flux'', ''flux_err'', ''filter'', ''is_detection'']"
        using "2.prems"(2) by (rule points_loop_keys)
      moreover have "build_lightcurve_loop data (points_loop (py_get d ''id'') ph rows) = Inr rows'"
        using "2.prems"(1) False Inr by simp
      ultimately show ?thesis
        using "2.IH"(2) False Inr by blast
    qed
  qed
qed (simp_all)

text \<open>
  C4 as stated fails. The builders hand the list of rows to the table constructor without
  naming any column, so the build of the empty sequence has no column at all, while a
  build that emits a row has the fifteen source columns (six for the lightcurve table).
\<close>

theorem empty_build_columns_counterexample:
  "map_sum id df_columns (build_dataset ([] :: real json list))
     \<noteq> map_sum id df_columns
         (build_dataset
            [JObj [(''id'', JInt 1), (''ra'', JInt 0), (''dec'', JInt 0), (''score'', JFloat (0.5::real))]])
   \<and> map_sum id df_columns (build_dataset ([] :: real json list)) = Inr []
   \<and> map_sum id df_columns
         (build_dataset
            [JObj [(''id'', JInt 1), (''ra'', JInt 0), (''dec'', JInt 0), (''score'', JFloat (0.5::real))]])
       = Inr [''id'', ''ra'', ''dec'', ''score'', ''is_transient'', ''is_varstar'', ''is_roid'',
              ''redshift'', ''label'', ''has_tns'', ''has_redshift'', ''has_photometry'',
              ''has_spectra'', ''n_photometry'', ''n_spectra'']
   \<and> map_sum id df_columns (build_lightcurve_dataset ([] :: real json list)) = Inr []
   \<and> map_sum id df_columns
         (build_lightcurve_dataset
            [JObj [(''id'', JInt 1),
                   (''tns_info'', JObj [(''photometry'', JList [JObj [(''jd'', JFloat (5::real))]])])]])
       = Inr [''id'', ''jd'', ''flux'', ''flux_err'', ''filter'', ''is_detection'']"
  by (simp add: build_dataset_def build_lightcurve_dataset_def pd_DataFrame_def pd_unique_def
        source_to_row_def validate_source_def required_fields_def py_in_def
        parse_photometry_cases parse_spectra_cases parse_label_def py_item_def py_get_def
        py_or_def photometry_point_to_row_def)

text \<open>
  C4, amended. For the empty input sequence both builders return the table with no row and
  no column. For every input on which a builder returns, the table has no column when it
  has no row, and otherwise exactly the fixed columns of the flattened row, in the order
  of the row's keys.
\<close>

theorem build_columns_by_rows:
  "build_dataset [] = Inr \<lparr>df_columns = [], df_rows = []\<rparr>
   \<and> build_lightcurve_dataset [] = Inr \<lparr>df_columns = [], df_rows = []\<rparr>
   \<and> (build_dataset data = Inr df \<longrightarrow>
         df_columns df =
           (if df_rows df = [] then []
            else [''id'', ''ra'', ''dec'', ''score'', ''is_transient'', ''is_varstar'',
                  ''is_roid'', ''redshift'', ''label'', ''has_tns'', ''has_redshift'',
                  ''has_photometry'', ''has_spectra'', ''n_photometry'', ''n_spectra'']))
   \<and> (build_lightcurve_dataset ldata = Inr ldf \<longrightarrow>
         df_columns ldf =
           (if df_rows ldf = [] then []
            else [''id'', ''jd'', ''flux'', ''flux_err'', ''filter'', ''is_detection'']))"
proof (intro conjI impI)
  show "build_dataset [] = Inr \<lparr>df_columns = [], df_rows = []\<rparr>"
    by (simp add: build_dataset_def pd_DataFrame_def pd_unique_def)
  show "build_lightcurve_dataset [] = Inr \<lparr>df_columns = [], df_rows = []\<rparr>"
    by (simp add: build_lightcurve_dataset_def pd_DataFrame_def pd_unique_def)
next
  let ?ks = "[''id'', ''ra'', ''dec'', ''score'', ''is_transient'', ''is_varstar'',
              ''is_roid'', ''redshift'', ''label'', ''has_tns'', ''has_redshift'',
              ''has_photometry'', ''has_spectra'', ''n_photometry'', ''n_spectra'']"
  assume "build_dataset data = Inr df"
  then obtain rows where loop: "build_dataset_loop data [] = Inr rows"
    and df: "df = pd_DataFrame rows"
    by (auto simp: build_dataset_def split: sum.splits)
  have keys: "\<forall>r\<in>set rows. map fst r = ?ks"
    using build_dataset_loop_keys [OF loop, of ?ks] by simp
  show "df_columns df = (if df_rows df = [] then [] else ?ks)"
  proof (cases "rows = []")
    case True
    then show ?thesis by (simp add: df pd_DataFrame_def pd_unique_def)
  next
    case False
    have "distinct ?ks" by simp
    from pd_unique_same_keys [OF this False keys] False show ?thesis
      by (simp add: df pd_DataFrame_def)
  qed
next
  let ?ks = "[''id'', ''jd'', ''flux'', ''flux_err'', ''filter'', ''is_detection'']"
  assume "build_lightcurve_dataset ldata = Inr ldf"
  then obtain rows where loop: "build_lightcurve_loop ldata [] = Inr rows"
    and df: "ldf = pd_DataFrame rows"
    by (auto simp: build_lightcurve_dataset_def split: sum.splits)
  have keys: "\<forall>r\<in>set rows. map fst r = ?ks"
    using build_lightcurve_loop_keys [OF loop] by simp
  show "df_columns ldf = (if df_rows ldf = [] then [] else ?ks)"
  proof (cases "rows = []")
    case True
    then show ?thesis by (simp add: df pd_DataFrame_def pd_unique_def)
  next
    case False
    have "distinct ?ks" by simp
    from pd_unique_same_keys [OF this False keys] False show ?thesis
      by (simp add: df pd_DataFrame_def)
  qed
qed

theorem build_columns_by_rows_witness:
  "(\<exists>ldf. build_lightcurve_dataset
            [JObj [(''id'', JInt 1),
                   (''tns_info'', JObj [(''photometry'', JList [JObj [(''jd'', JFloat (5::real))]])])]]
          = Inr ldf
        \<and> df_rows ldf \<noteq> []
        \<and> df_columns ldf = [''id'', ''jd'', ''flux'', ''flux_err'', ''filter'', ''is_detection''])
   \<and> (\<exists>df. build_dataset [JStr ''not-a-dict'' :: real json] = Inr df
        \<and> df_rows df = [] \<and> df_columns df = [])"
proof -
  let ?ld = "[JObj [(''id'', JInt 1),
                   (''tns_info'', JObj [(''photometry'', JList [JObj [(''jd'', JFloat (5::real))]])])]]"
  let ?ldf = "\<lparr>df_columns = [''id'', ''jd'', ''flux'', ''flux_err'', ''filter'', ''is_detection''],
      df_rows = [[(''id'', JInt 1), (''jd'', JFloat (5::real)), (''flux'', JNull),
                  (''flux_err'', JNull), (''filter'', JNull), (''is_detection'', JBool False)]]\<rparr>"
  let ?d = "[JStr ''not-a-dict'' :: real json]"
  let ?df = "\<lparr>df_columns = [], df_rows = []\<rparr> :: real dataframe"
  have h1: "build_lightcurve_dataset ?ld = Inr ?ldf"
    by (simp add: build_lightcurve_dataset_def pd_DataFrame_def pd_unique_def
          parse_photometry_cases py_get_def py_or_def photometry_point_to_row_def)
  have h2: "build_dataset ?d = Inr ?df"
    by (simp add: build_dataset_def pd_DataFrame_def pd_unique_def)
  show ?thesis
    using build_columns_by_rows [where data = ?d and df = ?df and ldata = ?ld and ldf = ?ldf] h1 h2
    by auto
qed

section \<open>The lightcurve builder\<close>

lemma points_loop_map_filter:
  "points_loop sid ph rows = rows @ List.map_filter (photometry_point_to_row sid) ph"
  by (induction ph arbitrary: rows) (auto split: option.splits)

lemma point_row_None_iff:
  "photometry_point_to_row sid pt = None
     \<longleftrightarrow> \<not> (case pt of JObj p \<Rightarrow> py_get p ''jd'' \<noteq> JNull | _ \<Rightarrow> False)"
  by (cases pt) (simp_all add: photometry_point_to_row_def Let_def)

lemma length_point_rows:
  "length (List.map_filter (photometry_point_to_row sid) ph)
     = length [pt \<leftarrow> ph. case pt of JObj p \<Rightarrow> py_get p ''jd'' \<noteq> JNull | _ \<Rightarrow> False]"
proof (induction ph)
  case Nil
  show ?case by simp
next
  case (Cons pt ph)
  show ?case
  proof (cases "photometry_point_to_row sid pt")
    case None
    then show ?thesis
      using Cons point_row_None_iff [of sid pt] by simp
  next
    case (Some row)
    then show ?thesis
      using Cons point_row_None_iff [of sid pt] by simp
  qed
qed

lemma build_lightcurve_loop_append:
  "build_lightcurve_loop (xs @ ys) rows =
     (case build_lightcurve_loop xs rows of
        Inl e \<Rightarrow> Inl e
      | Inr rows' \<Rightarrow> build_lightcurve_loop ys rows')"
  by (induction xs rows rule: build_lightcurve_loop.induct)
     (auto simp: Let_def split: sum.splits)

lemma build_lightcurve_loop_shift:
  "build_lightcurve_loop data (rows @ extra) =
     (case build_lightcurve_loop data extra of
        Inl e \<Rightarrow> Inl e
      | Inr new \<Rightarrow> Inr (rows @ new))"
proof (induction data arbitrary: extra)
  case Nil
  show ?case by simp
next
  case (Cons obj data)
  show ?case
  proof (cases obj)
    case (JObj d)
    show ?thesis
    proof (cases "parse_photometry d")
      case (Inl e)
      then show ?thesis by (simp add: JObj Cons Let_def)
    next
      case (Inr ph)
      then show ?thesis
        using Cons [of "extra @ List.map_filter (photometry_point_to_row (py_get d ''id'')) ph"]
        by (simp add: JObj Cons points_loop_map_filter Let_def)
    qed
  qed (simp_all add: Cons)
qed

lemma build_lightcurve_loop_error:
  "build_lightcurve_loop data rows = Inl e \<Longrightarrow> \<exists>t. e = AttributeError t"
proof (induction data rows rule: build_lightcurve_loop.induct)
  case (2 d data rows)
  then show ?case
    by (auto simp: Let_def split: if_splits sum.splits dest: parse_photometry_error)
qed simp_all

lemma py_get_filter_keys:
  "k \<notin> K \<Longrightarrow> py_get [kv \<leftarrow> d. fst kv \<notin> K] k = py_get d k"
  by (induction d) (auto simp: py_get_def)

lemma parse_photometry_filter_keys:
  "''tns_info'' \<notin> K \<Longrightarrow> parse_photometry [kv \<leftarrow> d. fst kv \<notin> K] = parse_photometry d"
  by (simp add: parse_photometry_cases py_get_filter_keys)

text \<open>
  C10. The lightcurve builder never validates a record. A mapping whose \<open>id\<close> is absent
  or null is skipped: the build is the build without it. A mapping with an \<open>id\<close> whose
  photometry can be extracted contributes, between the rows of the entries before it and
  of those after it, the rows of its photometry points in order, one for each point that
  is a mapping with a non-null \<open>jd\<close>. Removing \<open>ra\<close>, \<open>dec\<close> and \<open>score\<close> from a
  record changes nothing of the build, and the build never raises a \<^verbatim>\<open>KeyError\<close>.
\<close>

theorem build_lightcurve_dataset_no_validation:
  "(map_of d ''id'' = None \<or> map_of d ''id'' = Some JNull \<longrightarrow>
      build_lightcurve_dataset (pre @ JObj d # post) = build_lightcurve_dataset (pre @ post))
   \<and> (py_get d1 ''id'' \<noteq> JNull \<and> parse_photometry d1 = Inr ph
        \<and> build_lightcurve_dataset pre1 = Inr dfa \<and> build_lightcurve_dataset post1 = Inr dfb \<longrightarrow>
      build_lightcurve_dataset (pre1 @ JObj d1 # post1)
        = Inr (pd_DataFrame
                 (df_rows dfa
                  @ List.map_filter (photometry_point_to_row (py_get d1 ''id'')) ph
                  @ df_rows dfb))
      \<and> length (List.map_filter (photometry_point_to_row (py_get d1 ''id'')) ph)
          = length [pt \<leftarrow> ph. case pt of JObj p \<Rightarrow> py_get p ''jd'' \<noteq> JNull | _ \<Rightarrow> False])
   \<and> build_lightcurve_dataset (pre2 @ JObj [kv \<leftarrow> d2. fst kv \<notin> {''ra'', ''dec'', ''score''}] # post2)
       = build_lightcurve_dataset (pre2 @ JObj d2 # post2)
   \<and> build_lightcurve_dataset data \<noteq> Inl (KeyError m)"
proof (intro conjI impI)
  assume "map_of d ''id'' = None \<or> map_of d ''id'' = Some JNull"
  then have "py_get d ''id'' = JNull"
    by (auto simp: py_get_def)
  then have step: "build_lightcurve_loop (JObj d # post) rows = build_lightcurve_loop post rows"
    for rows by simp
  show "build_lightcurve_dataset (pre @ JObj d # post) = build_lightcurve_dataset (pre @ post)"
    by (cases "build_lightcurve_loop pre []")
       (simp_all add: build_lightcurve_dataset_def build_lightcurve_loop_append step
          del: build_lightcurve_loop.simps)
next
  assume a: "py_get d1 ''id'' \<noteq> JNull \<and> parse_photometry d1 = Inr ph
        \<and> build_lightcurve_dataset pre1 = Inr dfa \<and> build_lightcurve_dataset post1 = Inr dfb"
  let ?new = "List.map_filter (photometry_point_to_row (py_get d1 ''id'')) ph"
  from a obtain ra where ra: "build_lightcurve_loop pre1 [] = Inr ra" "df_rows dfa = ra"
    by (auto simp: build_lightcurve_dataset_def pd_DataFrame_def split: sum.splits)
  from a obtain rb where rb: "build_lightcurve_loop post1 [] = Inr rb" "df_rows dfb = rb"
    by (auto simp: build_lightcurve_dataset_def pd_DataFrame_def split: sum.splits)
  have "build_lightcurve_loop (JObj d1 # post1) ra = build_lightcurve_loop post1 ((ra @ ?new) @ [])"
    using a by (simp add: points_loop_map_filter)
  also have "\<dots> = Inr ((ra @ ?new) @ rb)"
    by (simp only: build_lightcurve_loop_shift rb sum.case)
  finally have "build_lightcurve_loop (pre1 @ JObj d1 # post1) [] = Inr (ra @ ?new @ rb)"
    by (simp add: build_lightcurve_loop_append ra del: build_lightcurve_loop.simps)
  then show "build_lightcurve_dataset (pre1 @ JObj d1 # post1)
        = Inr (pd_DataFrame (df_rows dfa @ ?new @ df_rows dfb))"
    by (simp add: build_lightcurve_dataset_def ra rb)
next
  show "length (List.map_filter (photometry_point_to_row (py_get d1 ''id'')) ph)
          = length [pt \<leftarrow> ph. case pt of JObj p \<Rightarrow> py_get p ''jd'' \<noteq> JNull | _ \<Rightarrow> False]"
    by (rule length_point_rows)
next
  let ?K = "{''ra'', ''dec'', ''score''}"
  have g: "py_get [kv \<leftarrow> d2. fst kv \<notin> ?K] ''id'' = py_get d2 ''id''"
    by (rule py_get_filter_keys) simp
  have p: "parse_photometry [kv \<leftarrow> d2. fst kv \<notin> ?K] = parse_photometry d2"
    by (rule parse_photometry_filter_keys) simp
  have "build_lightcurve_loop (JObj [kv \<leftarrow> d2. fst kv \<notin> ?K] # post2) rows
          = build_lightcurve_loop (JObj d2 # post2) rows" for rows
    by (simp only: build_lightcurve_loop.simps g p)
  then show "build_lightcurve_dataset (pre2 @ JObj [kv \<leftarrow> d2. fst kv \<notin> ?K] # post2)
       = build_lightcurve_dataset (pre2 @ JObj d2 # post2)"
    by (cases "build_lightcurve_loop pre2 []")
       (simp_all add: build_lightcurve_dataset_def build_lightcurve_loop_append
          del: build_lightcurve_loop.simps)
next
  show "build_lightcurve_dataset data \<noteq> Inl (KeyError m)"
    using build_lightcurve_loop_error [of data "[]"]
    by (auto simp: build_lightcurve_dataset_def split: sum.splits)
qed

theorem build_lightcurve_dataset_no_validation_witness:
  "build_lightcurve_dataset
     [JObj [(''ra'', JInt 0), (''id'', JNull)],
      JObj [(''id'', JStr ''ZTF1''),
            (''tns_info'', JObj [(''photometry'',
               JList [JObj [(''jd'', JFloat (5::real)), (''flux'', JFloat 2)],
                      JObj [(''flux'', JFloat 1)],
                      JStr ''x''])])]]
   = build_lightcurve_dataset
     [JObj [(''id'', JStr ''ZTF1''),
            (''tns_info'', JObj [(''photometry'',
               JList [JObj [(''jd'', JFloat (5::real)), (''flux'', JFloat 2)],
                      JObj [(''flux'', JFloat 1)],
                      JStr ''x''])])]]
   \<and> build_lightcurve_dataset
     [JObj [(''id'', JStr ''ZTF1''),
            (''tns_info'', JObj [(''photometry'',
               JList [JObj [(''jd'', JFloat (5::real)), (''flux'', JFloat 2)],
                      JObj [(''flux'', JFloat 1)],
                      JStr ''x''])])]]
   = Inr (pd_DataFrame
       [[(''id'', JStr ''ZTF1''), (''jd'', JFloat 5), (''flux'', JFloat 2),
         (''flux_err'', JNull), (''filter'', JNull), (''is_detection'', JBool True)]])"
proof -
  let ?ph = "[JObj [(''jd'', JFloat (5::real)), (''flux'', JFloat 2)],
              JObj [(''flux'', JFloat 1)],
              JStr ''x'']"
  let ?d1 = "[(''id'', JStr ''ZTF1''), (''tns_info'', JObj [(''photometry'', JList ?ph)])]"
  let ?d = "[(''ra'', JInt 0), (''id'', JNull :: real json)]"
  let ?e = "\<lparr>df_columns = [], df_rows = []\<rparr> :: real dataframe"
  have h1: "map_of ?d ''id'' = None \<or> map_of ?d ''id'' = Some JNull"
    by simp
  have h2: "py_get ?d1 ''id'' \<noteq> JNull"
    by (simp add: py_get_def)
  have h3: "parse_photometry ?d1 = Inr ?ph"
    by (simp add: parse_photometry_cases py_get_def)
  have h4: "build_lightcurve_dataset ([] :: real json list) = Inr ?e"
    by (simp add: build_lightcurve_dataset_def pd_DataFrame_def pd_unique_def)
  have rows: "List.map_filter (photometry_point_to_row (py_get ?d1 ''id'')) ?ph
     = [[(''id'', JStr ''ZTF1''), (''jd'', JFloat 5), (''flux'', JFloat 2),
         (''flux_err'', JNull), (''filter'', JNull), (''is_detection'', JBool True)]]"
    by (simp add: photometry_point_to_row_def py_get_def py_or_def)
  note t = build_lightcurve_dataset_no_validation
            [where d = ?d and pre = "[]" and post = "[JObj ?d1]"
               and ?d1.0 = ?d1 and ph = ?ph and ?pre1.0 = "[]" and ?post1.0 = "[]"
               and dfa = ?e and dfb = ?e]
  have a: "build_lightcurve_dataset ([] @ JObj ?d # [JObj ?d1])
             = build_lightcurve_dataset ([] @ [JObj ?d1])"
    using t h1 by blast
  have b: "build_lightcurve_dataset ([] @ JObj ?d1 # [])
             = Inr (pd_DataFrame
                 (df_rows ?e
                  @ List.map_filter (photometry_point_to_row (py_get ?d1 ''id'')) ?ph
                  @ df_rows ?e))"
    using t h2 h3 h4 by blast
  show ?thesis
    using a b unfolding rows by simp
qed

section \<open>The lightcurve summary\<close>

lemma set_fold_unique:
  "set (fold (\<lambda>x acc. if x \<in> set acc then acc else acc @ [x]) xs acc) = set acc \<union> set xs"
  by (induction xs arbitrary: acc) auto

lemma distinct_fold_unique:
  "distinct acc \<Longrightarrow> distinct (fold (\<lambda>x acc. if x \<in> set acc then acc else acc @ [x]) xs acc)"
  by (induction xs arbitrary: acc) auto

lemma set_pd_unique: "set (pd_unique xs) = set xs"
  by (simp add: pd_unique_def set_fold_unique)

lemma distinct_pd_unique: "distinct (pd_unique xs)"
  by (simp add: pd_unique_def distinct_fold_unique)

lemma set_dropna: "set (dropna cells) = {x. Some x \<in> set cells}"
  by (induction cells) (auto simp: dropna_def split: option.splits)

lemma series_min_Min: "xs \<noteq> [] \<Longrightarrow> series_min xs = Some (Min (set xs))"
  using Min.set_eq_fold [of "hd xs" "tl xs"] by (cases xs) simp_all

lemma series_max_Max: "xs \<noteq> [] \<Longrightarrow> series_max xs = Some (Max (set xs))"
  using Max.set_eq_fold [of "hd xs" "tl xs"] by (cases xs) simp_all

lemma detections_flux_set:
  "set (dropna (map col_flux [r \<leftarrow> rows. col_flux r \<noteq> None]))
     = {x. \<exists>r\<in>set rows. col_flux r = Some x}"
  by (force simp: set_dropna)

lemma detections_jd_set:
  "set (map col_jd [r \<leftarrow> rows. col_flux r \<noteq> None])
     = {col_jd r | r. r \<in> set rows \<and> col_flux r \<noteq> None}"
  by auto

lemma detections_nonempty:
  "[r \<leftarrow> rows. col_flux r \<noteq> None] \<noteq> [] \<longleftrightarrow> (\<exists>r\<in>set rows. col_flux r \<noteq> None)"
  by (simp add: filter_empty_conv)

lemma detections_flux_nonempty:
  "\<exists>r\<in>set rows. col_flux r \<noteq> None \<Longrightarrow> dropna (map col_flux [r \<leftarrow> rows. col_flux r \<noteq> None]) \<noteq> []"
proof -
  assume "\<exists>r\<in>set rows. col_flux r \<noteq> None"
  then have "{x. \<exists>r\<in>set rows. col_flux r = Some x} \<noteq> {}" by auto
  then have "set (dropna (map col_flux [r \<leftarrow> rows. col_flux r \<noteq> None])) \<noteq> {}"
    unfolding detections_flux_set .
  then show ?thesis by auto
qed

lemma mask_rows:
  "map fst (filter snd (zip rows (map ((\<lambda>c. c \<noteq> None) \<circ> col_flux) rows)))
     = filter (\<lambda>r. col_flux r \<noteq> None) rows"
  by (induction rows) simp_all

lemma frame_mask_flux:
  "frame_mask lc (map ((\<lambda>c. c \<noteq> None) \<circ> col_flux) (lc_rows lc))
     = lc\<lparr>lc_rows := filter (\<lambda>r. col_flux r \<noteq> None) (lc_rows lc)\<rparr>"
  by (simp only: frame_mask_def mask_rows)

lemma summarize_lightcurve_columns:
  assumes "''flux'' \<in> set (lc_columns lc)" and "''filter'' \<in> set (lc_columns lc)"
    and "''jd'' \<in> set (lc_columns lc)"
  shows "summarize_lightcurve lc =
     Inr (let detections = filter (\<lambda>r. col_flux r \<noteq> None) (lc_rows lc);
              summary =
                [(''n_points'', JInt (int (length (lc_rows lc)))),
                 (''n_detections'', JInt (int (length detections))),
                 (''filters'', JList (map JStr (sort (pd_unique (dropna (map col_filter (lc_rows lc)))))))]
          in if detections \<noteq> []
             then py_update summary
               [(''flux_min'', py_float (series_min (dropna (map col_flux detections)))),
                (''flux_max'', py_float (series_max (dropna (map col_flux detections)))),
                (''time_span_days'',
                   py_float
                     (case (series_max (map col_jd detections), series_min (map col_jd detections)) of
                        (Some hi, Some lo) \<Rightarrow> Some (hi - lo)
                      | _ \<Rightarrow> None))]
             else py_update summary
               [(''flux_min'', JNull),
                (''flux_max'', JNull),
                (''time_span_days'', JNull)])"
  using assms
  by (simp add: summarize_lightcurve_def frame_column_def frame_mask_flux Let_def
        del: not_None_eq)

text \<open>
  C7. For every lightcurve table that has the columns \<open>flux\<close>, \<open>filter\<close> and \<open>jd\<close>,
  the summarizer returns a summary. It holds the number of rows, the number of rows whose
  \<open>flux\<close> is not null, and the sorted list, without repetition, of the filter names that
  are not null. When some row has a flux, \<open>flux_min\<close> and \<open>flux_max\<close> are the least and
  the greatest flux, and \<open>time_span_days\<close> is the greatest minus the least \<open>jd\<close> among
  the rows that have a flux, the other rows being left out. When no row has a flux the
  three fields are \<^verbatim>\<open>None\<close>, which is neither a number nor \<^verbatim>\<open>NaN\<close>.
\<close>

theorem summarize_lightcurve_contract:
  fixes lc :: "('f::{linorder,minus}) lc_frame"
  assumes "''flux'' \<in> set (lc_columns lc)" and "''filter'' \<in> set (lc_columns lc)"
    and "''jd'' \<in> set (lc_columns lc)"
  shows
  "\<exists>S. summarize_lightcurve lc = Inr S
     \<and> map_of S ''n_points'' = Some (JInt (int (length (lc_rows lc))))
     \<and> map_of S ''n_detections''
         = Some (JInt (int (length [r \<leftarrow> lc_rows lc. col_flux r \<noteq> None])))
     \<and> (\<exists>fs. map_of S ''filters'' = Some (JList (map JStr fs))
            \<and> sorted fs \<and> distinct fs
            \<and> set fs = {f. \<exists>r\<in>set (lc_rows lc). col_filter r = Some f})
     \<and> ((\<exists>r\<in>set (lc_rows lc). col_flux r \<noteq> None) \<longrightarrow>
           map_of S ''flux_min''
             = Some (JFloat (Min {x. \<exists>r\<in>set (lc_rows lc). col_flux r = Some x}))
           \<and> map_of S ''flux_max''
             = Some (JFloat (Max {x. \<exists>r\<in>set (lc_rows lc). col_flux r = Some x}))
           \<and> map_of S ''time_span_days''
             = Some (JFloat (Max {col_jd r | r. r \<in> set (lc_rows lc) \<and> col_flux r \<noteq> None}
                             - Min {col_jd r | r. r \<in> set (lc_rows lc) \<and> col_flux r \<noteq> None})))
     \<and> ((\<forall>r\<in>set (lc_rows lc). col_flux r = None) \<longrightarrow>
           map_of S ''flux_min'' = Some JNull
           \<and> map_of S ''flux_max'' = Some JNull
           \<and> map_of S ''time_span_days'' = Some JNull)"
proof -
  let ?rows = "lc_rows lc"
  let ?det = "[r \<leftarrow> ?rows. col_flux r \<noteq> None]"
  let ?fs = "sort (pd_unique (dropna (map col_filter ?rows)))"
  let ?summary =
    "[(''n_points'', JInt (int (length ?rows))),
      (''n_detections'', JInt (int (length ?det))),
      (''filters'', JList (map JStr ?fs))]"
  define S where "S =
    (if ?det \<noteq> []
     then py_update ?summary
       [(''flux_min'', py_float (series_min (dropna (map col_flux ?det)))),
        (''flux_max'', py_float (series_max (dropna (map col_flux ?det)))),
        (''time_span_days'',
           py_float
             (case (series_max (map col_jd ?det), series_min (map col_jd ?det)) of
                (Some hi, Some lo) \<Rightarrow> Some (hi - lo)
              | _ \<Rightarrow> None))]
     else py_update ?summary
       [(''flux_min'', JNull),
        (''flux_max'', JNull),
        (''time_span_days'', JNull)])"
  have ret: "summarize_lightcurve lc = Inr S"
    using summarize_lightcurve_columns [OF assms] by (simp only: S_def Let_def)
  have points: "map_of S ''n_points'' = Some (JInt (int (length ?rows)))"
    by (simp add: S_def py_update_def del: not_None_eq)
  have dets: "map_of S ''n_detections'' = Some (JInt (int (length ?det)))"
    by (simp add: S_def py_update_def del: not_None_eq)
  have "map_of S ''filters'' = Some (JList (map JStr ?fs))"
    by (simp add: S_def py_update_def del: not_None_eq)
  moreover have "sorted ?fs" by simp
  moreover have "distinct ?fs" by (simp add: distinct_pd_unique)
  moreover have "set ?fs = {f. \<exists>r\<in>set ?rows. col_filter r = Some f}"
    by (force simp: set_pd_unique set_dropna)
  ultimately have filters: "\<exists>fs. map_of S ''filters'' = Some (JList (map JStr fs))
          \<and> sorted fs \<and> distinct fs
          \<and> set fs = {f. \<exists>r\<in>set ?rows. col_filter r = Some f}"
    by blast
  have some: "map_of S ''flux_min''
             = Some (JFloat (Min {x. \<exists>r\<in>set ?rows. col_flux r = Some x}))
           \<and> map_of S ''flux_max''
             = Some (JFloat (Max {x. \<exists>r\<in>set ?rows. col_flux r = Some x}))
           \<and> map_of S ''time_span_days''
             = Some (JFloat (Max {col_jd r | r. r \<in> set ?rows \<and> col_flux r \<noteq> None}
                             - Min {col_jd r | r. r \<in> set ?rows \<and> col_flux r \<noteq> None}))"
    if a: "\<exists>r\<in>set ?rows. col_flux r \<noteq> None"
  proof -
    have ne: "?det \<noteq> []"
      using a by (simp only: detections_nonempty)
    have mn: "series_min (dropna (map col_flux ?det))
                = Some (Min {x. \<exists>r\<in>set ?rows. col_flux r = Some x})"
      using series_min_Min [OF detections_flux_nonempty [OF a]]
      by (simp only: detections_flux_set)
    have mx: "series_max (dropna (map col_flux ?det))
                = Some (Max {x. \<exists>r\<in>set ?rows. col_flux r = Some x})"
      using series_max_Max [OF detections_flux_nonempty [OF a]]
      by (simp only: detections_flux_set)
    have jne: "map col_jd ?det \<noteq> []"
      using ne by simp
    have jmn: "series_min (map col_jd ?det)
                 = Some (Min {col_jd r | r. r \<in> set ?rows \<and> col_flux r \<noteq> None})"
      using series_min_Min [OF jne] by (simp only: detections_jd_set)
    have jmx: "series_max (map col_jd ?det)
                 = Some (Max {col_jd r | r. r \<in> set ?rows \<and> col_flux r \<noteq> None})"
      using series_max_Max [OF jne] by (simp only: detections_jd_set)
    show ?thesis
      using ne by (simp add: S_def py_update_def mn mx jmn jmx del: not_None_eq)
  qed
  have none: "map_of S ''flux_min'' = Some JNull
           \<and> map_of S ''flux_max'' = Some JNull
           \<and> map_of S ''time_span_days'' = Some JNull"
    if "\<forall>r\<in>set ?rows. col_flux r = None"
  proof -
    from that have e: "?det = []"
      by (simp add: filter_empty_conv)
    show ?thesis
      by (simp add: S_def py_update_def e del: not_None_eq)
  qed
  show ?thesis
  proof (rule exI [of _ S], intro conjI impI)
    show "summarize_lightcurve lc = Inr S" by (rule ret)
    show "map_of S ''n_points'' = Some (JInt (int (length ?rows)))" by (rule points)
    show "map_of S ''n_detections'' = Some (JInt (int (length ?det)))" by (rule dets)
    show "\<exists>fs. map_of S ''filters'' = Some (JList (map JStr fs))
          \<and> sorted fs \<and> distinct fs
          \<and> set fs = {f. \<exists>r\<in>set ?rows. col_filter r = Some f}" by (rule filters)
  next
    assume a: "\<exists>r\<in>set ?rows. col_flux r \<noteq> None"
    show "map_of S ''flux_min''
             = Some (JFloat (Min {x. \<exists>r\<in>set ?rows. col_flux r = Some x}))"
      using some [OF a] by (rule conjunct1)
    show "map_of S ''flux_max''
             = Some (JFloat (Max {x. \<exists>r\<in>set ?rows. col_flux r = Some x}))"
      using some [OF a] by (elim conjE)
    show "map_of S ''time_span_days''
             = Some (JFloat (Max {col_jd r | r. r \<in> set ?rows \<and> col_flux r \<noteq> None}
                             - Min {col_jd r | r. r \<in> set ?rows \<and> col_flux r \<noteq> None}))"
      using some [OF a] by (elim conjE)
  next
    assume a: "\<forall>r\<in>set ?rows. col_flux r = None"
    show "map_of S ''flux_min'' = Some JNull"
      using none [OF a] by (rule conjunct1)
    show "map_of S ''flux_max'' = Some JNull"
      using none [OF a] by (elim conjE)
    show "map_of S ''time_span_days'' = Some JNull"
      using none [OF a] by (elim conjE)
  qed
qed


theorem summarize_lightcurve_contract_witness:
  "(\<exists>S. summarize_lightcurve
      \<lparr>lc_columns = [''id'', ''jd'', ''flux'', ''flux_err'', ''filter'', ''is_detection''],
       lc_rows =
         [\<lparr>col_id = JStr ''ZTF1'', col_jd = 10::real, col_flux = Some 1, col_flux_err = None,
           col_filter = Some ''r'', col_is_detection = True\<rparr>,
          \<lparr>col_id = JStr ''ZTF1'', col_jd = 12, col_flux = Some 3, col_flux_err = None,
           col_filter = Some ''g'', col_is_detection = True\<rparr>,
          \<lparr>col_id = JStr ''ZTF1'', col_jd = 20, col_flux = None, col_flux_err = None,
           col_filter = Some ''r'', col_is_detection = False\<rparr>]\<rparr> = Inr S
     \<and> map_of S ''n_points'' = Some (JInt 3)
     \<and> map_of S ''n_detections'' = Some (JInt 2)
     \<and> map_of S ''flux_min'' = Some (JFloat 1)
     \<and> map_of S ''flux_max'' = Some (JFloat 3)
     \<and> map_of S ''time_span_days'' = Some (JFloat 2))
   \<and> (\<exists>S. summarize_lightcurve
      \<lparr>lc_columns = [''id'', ''jd'', ''flux'', ''flux_err'', ''filter'', ''is_detection''],
       lc_rows =
         [\<lparr>col_id = JStr ''ZTF1'', col_jd = 20::real, col_flux = None, col_flux_err = None,
           col_filter = Some ''r'', col_is_detection = False\<rparr>]\<rparr> = Inr S
     \<and> map_of S ''flux_min'' = Some JNull
     \<and> map_of S ''flux_max'' = Some JNull
     \<and> map_of S ''time_span_days'' = Some JNull)"
proof -
  let ?a = "\<lparr>col_id = JStr ''ZTF1'', col_jd = 10::real, col_flux = Some 1, col_flux_err = None,
        col_filter = Some ''r'', col_is_detection = True\<rparr>"
  let ?b = "\<lparr>col_id = JStr ''ZTF1'', col_jd = 12::real, col_flux = Some 3, col_flux_err = None,
        col_filter = Some ''g'', col_is_detection = True\<rparr>"
  let ?c = "\<lparr>col_id = JStr ''ZTF1'', col_jd = 20::real, col_flux = None, col_flux_err = None,
        col_filter = Some ''r'', col_is_detection = False\<rparr>"
  let ?lc = "\<lparr>lc_columns = [''id'', ''jd'', ''flux'', ''flux_err'', ''filter'', ''is_detection''],
              lc_rows = [?a, ?b, ?c]\<rparr>"
  have c1: "''flux'' \<in> set (lc_columns ?lc)" by simp
  have c2: "''filter'' \<in> set (lc_columns ?lc)" by simp
  have c3: "''jd'' \<in> set (lc_columns ?lc)" by simp
  have h1: "\<exists>r\<in>set (lc_rows ?lc). col_flux r \<noteq> None"
    by simp
  have fl: "{x. \<exists>r\<in>set (lc_rows ?lc). col_flux r = Some x} = {1, 3}"
    by auto
  have jd: "{col_jd r | r. r \<in> set (lc_rows ?lc) \<and> col_flux r \<noteq> None} = {10, 12}"
    unfolding detections_jd_set [symmetric] by simp
  have len: "length [r \<leftarrow> lc_rows ?lc. col_flux r \<noteq> None] = 2" "length (lc_rows ?lc) = 3"
    by simp_all
  from summarize_lightcurve_contract [OF c1 c2 c3]
  obtain S where all: "summarize_lightcurve ?lc = Inr S
     \<and> map_of S ''n_points'' = Some (JInt (int (length (lc_rows ?lc))))
     \<and> map_of S ''n_detections''
         = Some (JInt (int (length [r \<leftarrow> lc_rows ?lc. col_flux r \<noteq> None])))
     \<and> (\<exists>fs. map_of S ''filters'' = Some (JList (map JStr fs))
            \<and> sorted fs \<and> distinct fs
            \<and> set fs = {f. \<exists>r\<in>set (lc_rows ?lc). col_filter r = Some f})
     \<and> ((\<exists>r\<in>set (lc_rows ?lc). col_flux r \<noteq> None) \<longrightarrow>
           map_of S ''flux_min''
             = Some (JFloat (Min {x. \<exists>r\<in>set (lc_rows ?lc). col_flux r = Some x}))
           \<and> map_of S ''flux_max''
             = Some (JFloat (Max {x. \<exists>r\<in>set (lc_rows ?lc). col_flux r = Some x}))
           \<and> map_of S ''time_span_days''
             = Some (JFloat (Max {col_jd r | r. r \<in> set (lc_rows ?lc) \<and> col_flux r \<noteq> None}
                             - Min {col_jd r | r. r \<in> set (lc_rows ?lc) \<and> col_flux r \<noteq> None})))
     \<and> ((\<forall>r\<in>set (lc_rows ?lc). col_flux r = None) \<longrightarrow>
           map_of S ''flux_min'' = Some JNull
           \<and> map_of S ''flux_max'' = Some JNull
           \<and> map_of S ''time_span_days'' = Some JNull)" ..
  from all have ret: "summarize_lightcurve ?lc = Inr S"
    by (rule conjunct1)
  from all have points: "map_of S ''n_points'' = Some (JInt (int (length (lc_rows ?lc))))"
    by (elim conjE)
  from all have dets: "map_of S ''n_detections''
         = Some (JInt (int (length [r \<leftarrow> lc_rows ?lc. col_flux r \<noteq> None])))"
    by (elim conjE)
  from all have imp: "(\<exists>r\<in>set (lc_rows ?lc). col_flux r \<noteq> None) \<longrightarrow>
           map_of S ''flux_min''
             = Some (JFloat (Min {x. \<exists>r\<in>set (lc_rows ?lc). col_flux r = Some x}))
           \<and> map_of S ''flux_max''
             = Some (JFloat (Max {x. \<exists>r\<in>set (lc_rows ?lc). col_flux r = Some x}))
           \<and> map_of S ''time_span_days''
             = Some (JFloat (Max {col_jd r | r. r \<in> set (lc_rows ?lc) \<and> col_flux r \<noteq> None}
                             - Min {col_jd r | r. r \<in> set (lc_rows ?lc) \<and> col_flux r \<noteq> None}))"
    by (elim conjE)
  from imp h1 have nums: "map_of S ''flux_min''
             = Some (JFloat (Min {x. \<exists>r\<in>set (lc_rows ?lc). col_flux r = Some x}))
           \<and> map_of S ''flux_max''
             = Some (JFloat (Max {x. \<exists>r\<in>set (lc_rows ?lc). col_flux r = Some x}))
           \<and> map_of S ''time_span_days''
             = Some (JFloat (Max {col_jd r | r. r \<in> set (lc_rows ?lc) \<and> col_flux r \<noteq> None}
                             - Min {col_jd r | r. r \<in> set (lc_rows ?lc) \<and> col_flux r \<noteq> None}))"
    by (rule mp)
  from ret points dets nums have "summarize_lightcurve ?lc = Inr S
     \<and> map_of S ''n_points'' = Some (JInt 3)
     \<and> map_of S ''n_detections'' = Some (JInt 2)
     \<and> map_of S ''flux_min'' = Some (JFloat 1)
     \<and> map_of S ''flux_max'' = Some (JFloat 3)
     \<and> map_of S ''time_span_days'' = Some (JFloat 2)"
    unfolding fl jd len by simp
  then have first: "\<exists>S. summarize_lightcurve ?lc = Inr S
     \<and> map_of S ''n_points'' = Some (JInt 3)
     \<and> map_of S ''n_detections'' = Some (JInt 2)
     \<and> map_of S ''flux_min'' = Some (JFloat 1)
     \<and> map_of S ''flux_max'' = Some (JFloat 3)
     \<and> map_of S ''time_span_days'' = Some (JFloat 2)"
    by - (rule exI)
  let ?lc0 = "\<lparr>lc_columns = [''id'', ''jd'', ''flux'', ''flux_err'', ''filter'', ''is_detection''],
               lc_rows = [?c]\<rparr>"
  have d1: "''flux'' \<in> set (lc_columns ?lc0)" by simp
  have d2: "''filter'' \<in> set (lc_columns ?lc0)" by simp
  have d3: "''jd'' \<in> set (lc_columns ?lc0)" by simp
  have h2: "\<forall>r\<in>set (lc_rows ?lc0). col_flux r = None"
    by simp
  from summarize_lightcurve_contract [OF d1 d2 d3]
  obtain S0 where all0: "summarize_lightcurve ?lc0 = Inr S0
     \<and> map_of S0 ''n_points'' = Some (JInt (int (length (lc_rows ?lc0))))
     \<and> map_of S0 ''n_detections''
         = Some (JInt (int (length [r \<leftarrow> lc_rows ?lc0. col_flux r \<noteq> None])))
     \<and> (\<exists>fs. map_of S0 ''filters'' = Some (JList (map JStr fs))
            \<and> sorted fs \<and> distinct fs
            \<and> set fs = {f. \<exists>r\<in>set (lc_rows ?lc0). col_filter r = Some f})
     \<and> ((\<exists>r\<in>set (lc_rows ?lc0). col_flux r \<noteq> None) \<longrightarrow>
           map_of S0 ''flux_min''
             = Some (JFloat (Min {x. \<exists>r\<in>set (lc_rows ?lc0). col_flux r = Some x}))
           \<and> map_of S0 ''flux_max''
             = Some (JFloat (Max {x. \<exists>r\<in>set (lc_rows ?lc0). col_flux r = Some x}))
           \<and> map_of S0 ''time_span_days''
             = Some (JFloat (Max {col_jd r | r. r \<in> set (lc_rows ?lc0) \<and> col_flux r \<noteq> None}
                             - Min {col_jd r | r. r \<in> set (lc_rows ?lc0) \<and> col_flux r \<noteq> None})))
     \<and> ((\<forall>r\<in>set (lc_rows ?lc0). col_flux r = None) \<longrightarrow>
           map_of S0 ''flux_min'' = Some JNull
           \<and> map_of S0 ''flux_max'' = Some JNull
           \<and> map_of S0 ''time_span_days'' = Some JNull)" ..
  from all0 have ret0: "summarize_lightcurve ?lc0 = Inr S0"
    by (rule conjunct1)
  from all0 have imp0: "(\<forall>r\<in>set (lc_rows ?lc0). col_flux r = None) \<longrightarrow>
           map_of S0 ''flux_min'' = Some JNull
           \<and> map_of S0 ''flux_max'' = Some JNull
           \<and> map_of S0 ''time_span_days'' = Some JNull"
    by (elim conjE)
  from imp0 h2 have "map_of S0 ''flux_min'' = Some JNull
           \<and> map_of S0 ''flux_max'' = Some JNull
           \<and> map_of S0 ''time_span_days'' = Some JNull"
    by (rule mp)
  with ret0 have "summarize_lightcurve ?lc0 = Inr S0
     \<and> map_of S0 ''flux_min'' = Some JNull
     \<and> map_of S0 ''flux_max'' = Some JNull
     \<and> map_of S0 ''time_span_days'' = Some JNull"
    by (rule conjI)
  then have second: "\<exists>S. summarize_lightcurve ?lc0 = Inr S
     \<and> map_of S ''flux_min'' = Some JNull
     \<and> map_of S ''flux_max'' = Some JNull
     \<and> map_of S ''time_span_days'' = Some JNull"
    by - (rule exI)
  from first second show ?thesis
    by (rule conjI)
qed

section \<open>The prompt\<close>

lemma py_strip_core:
  assumes "s \<noteq> []" and "\<not> is_space (hd s)" and "\<not> is_space (last s)"
  shows "py_strip (nl @ s @ nl) = s"
proof -
  have sp: "is_space (CHR 0x0A)"
    by (simp add: is_space_def)
  have front: "dropWhile is_space (nl @ s @ nl) = s @ nl"
    using assms(1,2) sp by (cases s) (simp_all add: nl_def)
  have "rev (s @ nl) = CHR 0x0A # rev s"
    by (simp add: nl_def)
  moreover have "dropWhile is_space (rev s) = rev s"
    using assms(1,3) by (cases "rev s") (simp_all add: last_rev [symmetric] hd_rev)
  ultimately have "dropWhile is_space (rev (s @ nl)) = rev s"
    using sp by (simp add: nl_def)
  then show ?thesis
    by (simp only: py_strip_def front rev_rev_ident)
qed

lemma join_lines_snoc: "join_lines (xs @ [l]) = (join_lines xs @ l) @ nl"
  by (simp add: join_lines_def)

lemma join_lines_body:
  assumes "ls \<noteq> []"
  shows "join_lines ls = (join_lines (butlast ls) @ last ls) @ nl"
  using join_lines_snoc [of "butlast ls" "last ls"] assms by simp

lemma hd_join_lines_body:
  assumes "ls \<noteq> []" and "hd ls \<noteq> []"
  shows "hd (join_lines (butlast ls) @ last ls) = hd (hd ls)"
proof (cases ls)
  case Nil
  with assms show ?thesis by simp
next
  case (Cons l rest)
  then show ?thesis
    using assms by (cases rest) (simp_all add: join_lines_def)
qed

lemma build_prompt_body:
  assumes "ls \<noteq> []" and "hd ls \<noteq> []" and "\<not> is_space (hd (hd ls))"
    and "last ls \<noteq> []" and "\<not> is_space (last (last ls))"
  shows "py_strip (nl @ join_lines ls) = join_lines (butlast ls) @ last ls"
proof -
  let ?s = "join_lines (butlast ls) @ last ls"
  have "?s \<noteq> []" using assms(4) by simp
  moreover have "\<not> is_space (hd ?s)"
    using hd_join_lines_body [OF assms(1,2)] assms(3) by simp
  moreover have "\<not> is_space (last ?s)"
    using assms(4,5) by simp
  ultimately have "py_strip (nl @ ?s @ nl) = ?s"
    by (rule py_strip_core)
  then show ?thesis
    using join_lines_body [OF assms(1)] by simp
qed

lemma line_sublist_body:
  assumes "l \<in> set ls"
  shows "sublist l (join_lines (butlast ls) @ last ls)"
proof -
  from assms obtain as bs where ls: "ls = as @ l # bs"
    by (auto simp: in_set_conv_decomp)
  show ?thesis
  proof (cases "bs = []")
    case True
    then show ?thesis by (simp add: ls)
  next
    case False
    then have "butlast ls = as @ l # butlast bs" "last ls = last bs"
      by (simp_all add: ls butlast_append)
    then have "join_lines (butlast ls) @ last ls
                 = join_lines as @ l @ (nl @ join_lines (butlast bs) @ last bs)"
      by (simp add: join_lines_def)
    then show ?thesis
      by (simp only: sublist_appendI)
  qed
qed

lemma prompt_lines_ends:
  "prompt_lines repr row s \<noteq> []"
  "hd (prompt_lines repr row s) = ''The astronomer is mainly interested in:''"
  "last (prompt_lines repr row s) = ''Be concise and explicit about uncertainty.''"
  by (simp_all add: prompt_lines_def)

lemma build_prompt_eq:
  "build_prompt repr row s
     = join_lines (butlast (prompt_lines repr row s)) @ last (prompt_lines repr row s)"
  unfolding build_prompt_def
  by (rule build_prompt_body) (simp_all add: prompt_lines_ends is_space_def)

lemma line_in_prompt:
  "l \<in> set (prompt_lines repr row s) \<Longrightarrow> sublist l (build_prompt repr row s)"
  by (simp only: build_prompt_eq line_sublist_body)

lemma py_str_absent:
  "map_of d k = None \<or> map_of d k = Some JNull \<Longrightarrow> py_str repr (py_get d k) = ''None''"
  by (auto simp: py_get_def)

text \<open>
  C8. For every source row and every summary, whatever they hold, the prompt contains each
  labelled line of the template with the rendered value after its label: the eleven
  metadata lines, which carry the twelve metadata values read from the source row (among
  them the identity, coordinates, score, flags, signals and label the specification
  counts), and the five summary lines. A value that is absent from its dict, or null, is
  rendered as the text \<^verbatim>\<open>None\<close>, so its line is present with that placeholder.
\<close>

theorem build_prompt_fixed_shape:
  "sublist (''ID: '' @ py_str repr (py_get source_row ''id''))
         (build_prompt repr source_row lc_summary)
   \<and> sublist (''RA / Dec: '' @ py_str repr (py_get source_row ''ra'') @ '', '' @ py_str repr (py_get source_row ''dec''))
         (build_prompt repr source_row lc_summary)
   \<and> sublist (''Detection score: '' @ py_str repr (py_get source_row ''score''))
         (build_prompt repr source_row lc_summary)
   \<and> sublist (''- Is transient (heuristic): '' @ py_str repr (py_get source_row ''is_transient''))
         (build_prompt repr source_row lc_summary)
   \<and> sublist (''- Is variable star: '' @ py_str repr (py_get source_row ''is_varstar''))
         (build_prompt repr source_row lc_summary)
   \<and> sublist (''- Is minor object: '' @ py_str repr (py_get source_row ''is_roid''))
         (build_prompt repr source_row lc_summary)
   \<and> sublist (''- TNS reported: '' @ py_str repr (py_get source_row ''has_tns''))
         (build_prompt repr source_row lc_summary)
   \<and> sublist (''- Redshift available: '' @ py_str repr (py_get source_row ''has_redshift''))
         (build_prompt repr source_row lc_summary)
   \<and> sublist (''- Spectra available: '' @ py_str repr (py_get source_row ''has_spectra''))
         (build_prompt repr source_row lc_summary)
   \<and> sublist (''- Redshift value: '' @ py_str repr (py_get source_row ''redshift''))
         (build_prompt repr source_row lc_summary)
   \<and> sublist (''- TNS label (if any): '' @ py_str repr (py_get source_row ''label''))
         (build_prompt repr source_row lc_summary)
   \<and> sublist (''Number of photometry points: '' @ py_str repr (py_get lc_summary ''n_points''))
         (build_prompt repr source_row lc_summary)
   \<and> sublist (''Number of detections: '' @ py_str repr (py_get lc_summary ''n_detections''))
         (build_prompt repr source_row lc_summary)
   \<and> sublist (''Filters used: '' @ py_str repr (py_get lc_summary ''filters''))
         (build_prompt repr source_row lc_summary)
   \<and> sublist (''Flux range: '' @ py_str repr (py_get lc_summary ''flux_min'') @ '' to '' @ py_str repr (py_get lc_summary ''flux_max''))
         (build_prompt repr source_row lc_summary)
   \<and> sublist (''Observed time span (days): '' @ py_str repr (py_get lc_summary ''time_span_days''))
         (build_prompt repr source_row lc_summary)
   \<and> (map_of d k = None \<or> map_of d k = Some JNull \<longrightarrow> py_str repr (py_get d k) = ''None'')"
proof (intro conjI impI)
  assume "map_of d k = None \<or> map_of d k = Some JNull"
  then show "py_str repr (py_get d k) = ''None''"
    by (rule py_str_absent)
qed (rule line_in_prompt, simp add: prompt_lines_def)+

theorem build_prompt_fixed_shape_witness:
  "sublist ''ID: None''
         (build_prompt (\<lambda>v. ''?'') ([] :: real pydict) [])
   \<and> sublist ''RA / Dec: None, None''
         (build_prompt (\<lambda>v. ''?'') ([] :: real pydict) [])
   \<and> sublist ''Detection score: None''
         (build_prompt (\<lambda>v. ''?'') ([] :: real pydict) [])
   \<and> sublist ''- Is transient (heuristic): None''
         (build_prompt (\<lambda>v. ''?'') ([] :: real pydict) [])
   \<and> sublist ''- Is variable star: None''
         (build_prompt (\<lambda>v. ''?'') ([] :: real pydict) [])
   \<and> sublist ''- Is minor object: None''
         (build_prompt (\<lambda>v. ''?'') ([] :: real pydict) [])
   \<and> sublist ''- TNS reported: None''
         (build_prompt (\<lambda>v. ''?'') ([] :: real pydict) [])
   \<and> sublist ''- Redshift available: None''
         (build_prompt (\<lambda>v. ''?'') ([] :: real pydict) [])
   \<and> sublist ''- Spectra available: None''
         (build_prompt (\<lambda>v. ''?'') ([] :: real pydict) [])
   \<and> sublist ''- Redshift value: None''
         (build_prompt (\<lambda>v. ''?'') ([] :: real pydict) [])
   \<and> sublist ''- TNS label (if any): None''
         (build_prompt (\<lambda>v. ''?'') ([] :: real pydict) [])
   \<and> sublist ''Number of photometry points: None''
         (build_prompt (\<lambda>v. ''?'') ([] :: real pydict) [])
   \<and> sublist ''Number of detections: None''
         (build_prompt (\<lambda>v. ''?'') ([] :: real pydict) [])
   \<and> sublist ''Filters used: None''
         (build_prompt (\<lambda>v. ''?'') ([] :: real pydict) [])
   \<and> sublist ''Flux range: None to None''
         (build_prompt (\<lambda>v. ''?'') ([] :: real pydict) [])
   \<and> sublist ''Observed time span (days): None''
         (build_prompt (\<lambda>v. ''?'') ([] :: real pydict) [])"
  using build_prompt_fixed_shape
          [where repr = "\<lambda>v. ''?''" and source_row = "[] :: real pydict" and lc_summary = "[]"
             and d = "[] :: real pydict" and k = "''id''"]
  by (simp add: py_get_def)

end
